theory Spec2Isabelle
  imports Complex_Main "HOL-Library.Word"
begin

section \<open>The textured-quad program of main.cpp\<close>

text \<open>
  The program is one linear \<open>main\<close> around calls to three external libraries (GLFW,
  glad/OpenGL, stb-image) and a \<open>Shader\<close> helper class. The model records every call the
  program makes, in order and with its arguments, in a list of \<open>call\<close>s; what the libraries
  answer (a window pointer, whether the driver functions resolved, the decoded image, the
  key state and the window events of each frame) is the environment \<open>env\<close>.
\<close>

subsection \<open>C types and library constants\<close>

text \<open>
  \<open>int\<close> and \<open>unsigned int\<close> are 32 bits wide; \<open>sint\<close> reads the first, \<open>unat\<close> the second.
  Converting an \<open>unsigned int\<close> to an \<open>int\<close> keeps the bits.
\<close>

type_synonym c_int = "32 word"
type_synonym c_uint = "32 word"

text \<open>A pointer is an address, \<open>NULL\<close> the address 0.\<close>

type_synonym pointer = nat

definition NULL :: pointer where
  "NULL = 0"

text \<open>\<open>sizeof(float)\<close> and \<open>sizeof(unsigned int)\<close> on the platforms OpenGL 3.3 runs on.\<close>

definition sizeof_float :: nat where
  "sizeof_float = 4"

definition sizeof_unsigned_int :: nat where
  "sizeof_unsigned_int = 4"

datatype glfw_hint =
  GLFW_CONTEXT_VERSION_MAJOR | GLFW_CONTEXT_VERSION_MINOR
  | GLFW_OPENGL_PROFILE | GLFW_OPENGL_FORWARD_COMPAT

datatype hint_value = Int_value c_int | GLFW_OPENGL_CORE_PROFILE | GL_TRUE

datatype glfw_key = GLFW_KEY_ESCAPE

datatype key_action = GLFW_RELEASE | GLFW_PRESS

datatype gl_enum =
  GL_ARRAY_BUFFER | GL_ELEMENT_ARRAY_BUFFER | GL_STATIC_DRAW
  | GL_FLOAT | GL_UNSIGNED_INT | GL_UNSIGNED_BYTE | GL_FALSE
  | GL_TEXTURE_2D | GL_TEXTURE_WRAP_S | GL_TEXTURE_WRAP_T
  | GL_TEXTURE_MIN_FILTER | GL_TEXTURE_MAG_FILTER
  | GL_REPEAT | GL_MIRRORED_REPEAT | GL_CLAMP_TO_EDGE | GL_CLAMP_TO_BORDER
  | GL_NEAREST | GL_LINEAR
  | GL_RGB | GL_COLOR_BUFFER_BIT | GL_TRIANGLES

text \<open>The client memory handed to \<open>glBufferData\<close>: the array of floats or of unsigned ints.\<close>

datatype buffer_contents = Floats "real list" | UInts "c_uint list"

subsection \<open>The calls the program makes\<close>

datatype call =
  GlfwInit
  | GlfwWindowHint glfw_hint hint_value
  | GlfwCreateWindow c_int c_int string pointer pointer
  | GlfwTerminate
  | GlfwMakeContextCurrent pointer
  | GlfwSetFramebufferSizeCallback pointer
  | GladLoadGLLoader
  | Print string
  | ShaderConstruct string string
  | ShaderUse
  | ShaderGetProgram
  | GlGenVertexArrays c_int
  | GlGenBuffers c_int
  | GlGenTextures c_int
  | GlBindVertexArray c_uint
  | GlBindBuffer gl_enum c_uint
  | GlBufferData gl_enum nat buffer_contents gl_enum
  | GlVertexAttribPointer c_uint c_int gl_enum gl_enum nat nat
  | GlEnableVertexAttribArray c_uint
  | GlBindTexture gl_enum c_uint
  | GlTexParameteri gl_enum gl_enum gl_enum
  | StbiLoad string c_int
  | GlTexImage2D gl_enum c_int gl_enum c_int c_int c_int gl_enum gl_enum pointer
  | GlGenerateMipmap gl_enum
  | StbiImageFree pointer
  | GlfwWindowShouldClose pointer
  | GlfwGetKey pointer glfw_key
  | GlfwSetWindowShouldClose pointer bool
  | GlClearColor real real real real
  | GlClear gl_enum
  | GlGetUniformLocation c_uint string
  | GlfwGetTime
  | GlUniform1f c_int real
  | GlDrawElements gl_enum c_int gl_enum nat
  | GlfwSwapBuffers pointer
  | GlfwPollEvents
  | GlViewport c_int c_int c_int c_int
  | GlDeleteVertexArrays c_int c_uint
  | GlDeleteBuffers c_int c_uint
  | GlDeleteTextures c_int c_uint

text \<open>
  \<open>GlDeleteTextures\<close> is the entry point of the graphics API that destroys a texture
  object; it is part of the vocabulary so that its absence from a run can be stated.

  The \<open>Shader\<close> class comes from \<open>shader.h\<close>, which is not among the sources: its
  constructor and its methods \<open>use\<close> and \<open>getProgram\<close> are recorded as calls that return
  to \<open>main\<close>, and the handle \<open>getProgram\<close> returns is a value of the environment.
\<close>

subsection \<open>The environment\<close>

text \<open>
  What GLFW delivers while \<open>glfwPollEvents\<close> runs: a request to close the window (GLFW
  sets the window's close flag itself) or a new framebuffer size (GLFW calls the callback
  registered with \<open>glfwSetFramebufferSizeCallback\<close>).
\<close>

datatype window_event = CloseRequested | FramebufferResized c_int c_int

record frame_input =
  escape_key :: key_action
  time_location :: c_int
  clock :: real
  polled :: "window_event list"

record env =
  apple :: bool
  float_of_double :: "real \<Rightarrow> real"
  window :: pointer
  glad_loaded :: bool
  program :: c_uint
  VAO :: c_uint
  VBO :: c_uint
  EBO :: c_uint
  texture :: c_uint
  data :: pointer
  width :: c_int
  height :: c_int
  frames :: "frame_input list"

text \<open>
  \<open>apple\<close> says whether \<open>__APPLE__\<close> is defined; \<open>float_of_double\<close> is the platform's
  conversion of a \<open>double\<close> to a \<open>float\<close>, which the program applies to the clock when it
  passes it to \<open>glUniform1f\<close>; \<open>window\<close> is what \<open>glfwCreateWindow\<close>
  returns and \<open>glad_loaded\<close> what \<open>gladLoadGLLoader\<close> returns; \<open>VAO\<close>, \<open>VBO\<close>, \<open>EBO\<close>
  and \<open>texture\<close> are the names the \<open>glGen...\<close> calls write; \<open>data\<close>, \<open>width\<close> and
  \<open>height\<close> are what \<open>stbi_load\<close> returns and writes (the channel count it also writes
  is never read).
  \<open>frames\<close> is the input of the frames the environment supplies, one entry per iteration
  of the render loop; a run that uses them all up without seeing the close flag is still
  in the loop.
\<close>

subsection \<open>The running program\<close>

record world =
  calls :: "call list"
  should_close :: bool

definition emit :: "call \<Rightarrow> world \<Rightarrow> world" where
  "emit c w = w\<lparr>calls := calls w @ [c]\<rparr>"

definition emits :: "call list \<Rightarrow> world \<Rightarrow> world" where
  "emits cs w = w\<lparr>calls := calls w @ cs\<rparr>"

definition SCR_WIDTH :: c_uint where
  "SCR_WIDTH = 800"

definition SCR_HEIGHT :: c_uint where
  "SCR_HEIGHT = 600"

text \<open>
  A \<open>float\<close> is the real number it stands for. The literals \<open>0.5f\<close>, \<open>0.0f\<close> and \<open>1.0f\<close>
  are exactly 1/2, 0 and 1; \<open>0.2f\<close> and \<open>0.3f\<close> are the single-precision numbers nearest to
  2/10 and 3/10, which are 13421773 / 2^26 and 5033165 / 2^24.
\<close>

definition float_0_2 :: real where
  "float_0_2 = 13421773 / 67108864"

definition float_0_3 :: real where
  "float_0_3 = 5033165 / 16777216"

definition vertices :: "real list" where
  "vertices =
    [ 0.5,  0.5, 0.0,   1.0, 0.0, 0.0,   1.0, 1.0,
      0.5, -0.5, 0.0,   0.0, 1.0, 0.0,   1.0, 0.0,
     -0.5, -0.5, 0.0,   0.0, 0.0, 1.0,   0.0, 0.0,
     -0.5,  0.5, 0.0,   1.0, 1.0, 0.0,   0.0, 1.0]"

definition indices :: "c_uint list" where
  "indices =
    [0, 1, 3,
     1, 2, 3]"

text \<open>\<open>glfwSetWindowShouldClose\<close> writes the window's close flag.\<close>

definition glfwSetWindowShouldClose :: "pointer \<Rightarrow> bool \<Rightarrow> world \<Rightarrow> world" where
  "glfwSetWindowShouldClose win v w =
     (emit (GlfwSetWindowShouldClose win v) w)\<lparr>should_close := v\<rparr>"

definition processInput :: "pointer \<Rightarrow> key_action \<Rightarrow> world \<Rightarrow> world" where
  "processInput win key w =
     (let w = emit (GlfwGetKey win GLFW_KEY_ESCAPE) w
      in if key = GLFW_PRESS then glfwSetWindowShouldClose win True w else w)"

definition framebuffer_size_callback :: "pointer \<Rightarrow> c_int \<Rightarrow> c_int \<Rightarrow> world \<Rightarrow> world" where
  "framebuffer_size_callback win wd ht w = emit (GlViewport 0 0 wd ht) w"

fun deliver :: "pointer \<Rightarrow> window_event \<Rightarrow> world \<Rightarrow> world" where
  "deliver win CloseRequested w = w\<lparr>should_close := True\<rparr>"
| "deliver win (FramebufferResized wd ht) w = framebuffer_size_callback win wd ht w"

definition glfwPollEvents :: "pointer \<Rightarrow> window_event list \<Rightarrow> world \<Rightarrow> world" where
  "glfwPollEvents win evs w = fold (deliver win) evs (emit GlfwPollEvents w)"

text \<open>The body of the render loop, lines 586 to 608.\<close>

definition frame :: "env \<Rightarrow> frame_input \<Rightarrow> world \<Rightarrow> world" where
  "frame e f w =
     (let w = processInput (window e) (escape_key f) w;
          w = emits
            [GlClearColor float_0_2 float_0_3 float_0_3 1.0,
             GlClear GL_COLOR_BUFFER_BIT,
             GlBindTexture GL_TEXTURE_2D (texture e),
             ShaderUse,
             ShaderGetProgram,
             GlGetUniformLocation (program e) ''time'',
             GlfwGetTime,
             GlUniform1f (time_location f) (float_of_double e (clock f)),
             GlBindVertexArray (VAO e),
             GlDrawElements GL_TRIANGLES 6 GL_UNSIGNED_INT 0,
             GlfwSwapBuffers (window e)] w
      in glfwPollEvents (window e) (polled f) w)"

text \<open>
  \<open>while (!glfwWindowShouldClose(window)) { ... }\<close>: the flag is read before every
  iteration. The result says whether the loop was left (\<open>True\<close>) or the supplied frames
  ran out with the flag still clear (\<open>False\<close>).
\<close>

fun render_loop :: "env \<Rightarrow> frame_input list \<Rightarrow> world \<Rightarrow> bool \<times> world" where
  "render_loop e [] w =
     (let w = emit (GlfwWindowShouldClose (window e)) w in (should_close w, w))"
| "render_loop e (f # fs) w =
     (let w = emit (GlfwWindowShouldClose (window e)) w
      in if should_close w then (True, w) else render_loop e fs (frame e f w))"

text \<open>The sections of \<open>main\<close>, named after the comments that head them in the source.\<close>

definition glfw_initialize :: "env \<Rightarrow> call list" where
  "glfw_initialize e =
     [GlfwInit,
      GlfwWindowHint GLFW_CONTEXT_VERSION_MAJOR (Int_value 3),
      GlfwWindowHint GLFW_CONTEXT_VERSION_MINOR (Int_value 3),
      GlfwWindowHint GLFW_OPENGL_PROFILE GLFW_OPENGL_CORE_PROFILE]
     @ (if apple e then [GlfwWindowHint GLFW_OPENGL_FORWARD_COMPAT GL_TRUE] else [])"

definition set_up_vertex_data :: "env \<Rightarrow> call list" where
  "set_up_vertex_data e =
     [GlGenVertexArrays 1,
      GlGenBuffers 1,
      GlGenBuffers 1,
      GlBindVertexArray (VAO e),
      GlBindBuffer GL_ARRAY_BUFFER (VBO e),
      GlBufferData GL_ARRAY_BUFFER (length vertices * sizeof_float) (Floats vertices)
        GL_STATIC_DRAW,
      GlBindBuffer GL_ELEMENT_ARRAY_BUFFER (EBO e),
      GlBufferData GL_ELEMENT_ARRAY_BUFFER (length indices * sizeof_unsigned_int)
        (UInts indices) GL_STATIC_DRAW,
      GlVertexAttribPointer 0 3 GL_FLOAT GL_FALSE (8 * sizeof_float) 0,
      GlEnableVertexAttribArray 0,
      GlVertexAttribPointer 1 3 GL_FLOAT GL_FALSE (8 * sizeof_float) (3 * sizeof_float),
      GlEnableVertexAttribArray 1,
      GlVertexAttribPointer 2 2 GL_FLOAT GL_FALSE (8 * sizeof_float) (6 * sizeof_float),
      GlEnableVertexAttribArray 2]"

definition load_and_create_texture :: "env \<Rightarrow> call list" where
  "load_and_create_texture e =
     [GlGenTextures 1,
      GlBindTexture GL_TEXTURE_2D (texture e),
      GlTexParameteri GL_TEXTURE_2D GL_TEXTURE_WRAP_S GL_REPEAT,
      GlTexParameteri GL_TEXTURE_2D GL_TEXTURE_WRAP_T GL_REPEAT,
      GlTexParameteri GL_TEXTURE_2D GL_TEXTURE_MIN_FILTER GL_LINEAR,
      GlTexParameteri GL_TEXTURE_2D GL_TEXTURE_MAG_FILTER GL_LINEAR,
      StbiLoad ''container.jpg'' 0]
     @ (if data e \<noteq> NULL
        then [GlTexImage2D GL_TEXTURE_2D 0 GL_RGB (width e) (height e) 0 GL_RGB
                GL_UNSIGNED_BYTE (data e),
              GlGenerateMipmap GL_TEXTURE_2D]
        else [Print ''Failed to load texture''])
     @ [StbiImageFree (data e)]"

definition de_allocate :: "env \<Rightarrow> call list" where
  "de_allocate e =
     [GlDeleteVertexArrays 1 (VAO e),
      GlDeleteBuffers 1 (VBO e),
      GlDeleteBuffers 1 (EBO e)]"

text \<open>
  \<open>main\<close>: the calls made and the value returned, \<open>None\<close> while the render loop has not
  been left after all the frames of the environment.
\<close>

definition main :: "env \<Rightarrow> call list \<times> c_int option" where
  "main e =
     (let w = \<lparr>calls = [], should_close = False\<rparr>;
          w = emits (glfw_initialize e) w;
          w = emit (GlfwCreateWindow SCR_WIDTH SCR_HEIGHT ''LearnOpenGL'' NULL NULL) w
      in if window e = NULL
         then (calls (emits [Print ''Failed to create GLFW window'', GlfwTerminate] w),
               Some (- 1))
         else
           let w = emits [GlfwMakeContextCurrent (window e),
                          GlfwSetFramebufferSizeCallback (window e),
                          GladLoadGLLoader] w
           in if \<not> glad_loaded e
              then (calls (emit (Print ''Failed to initialize GLAD'') w), Some (- 1))
              else
                let w = emit (ShaderConstruct ''4.1.texturevs.txt'' ''4.1.texturefs.txt'') w;
                    w = emits (set_up_vertex_data e) w;
                    w = emits (load_and_create_texture e) w;
                    (left, w) = render_loop e (frames e) w
                in if left
                   then (calls (emits (de_allocate e @ [GlfwTerminate]) w), Some 0)
                   else (calls w, None))"

subsection \<open>Reading a run\<close>

text \<open>
  A frame asks for the loop to end when the escape key is down at the input check or when
  a close request is among the events polled.
\<close>

definition close_requested_in :: "frame_input \<Rightarrow> bool" where
  "close_requested_in f = (escape_key f = GLFW_PRESS \<or> CloseRequested \<in> set (polled f))"

fun callback_calls :: "window_event \<Rightarrow> call list" where
  "callback_calls CloseRequested = []"
| "callback_calls (FramebufferResized wd ht) = [GlViewport 0 0 wd ht]"

text \<open>The calls of one iteration and of the whole loop, as lists (proved below to be what
  \<open>frame\<close> and \<open>render_loop\<close> append).\<close>

definition frame_calls :: "env \<Rightarrow> frame_input \<Rightarrow> call list" where
  "frame_calls e f =
     [GlfwGetKey (window e) GLFW_KEY_ESCAPE]
     @ (if escape_key f = GLFW_PRESS then [GlfwSetWindowShouldClose (window e) True] else [])
     @ [GlClearColor float_0_2 float_0_3 float_0_3 1.0,
        GlClear GL_COLOR_BUFFER_BIT,
        GlBindTexture GL_TEXTURE_2D (texture e),
        ShaderUse,
        ShaderGetProgram,
        GlGetUniformLocation (program e) ''time'',
        GlfwGetTime,
        GlUniform1f (time_location f) (float_of_double e (clock f)),
        GlBindVertexArray (VAO e),
        GlDrawElements GL_TRIANGLES 6 GL_UNSIGNED_INT 0,
        GlfwSwapBuffers (window e),
        GlfwPollEvents]
     @ concat (map callback_calls (polled f))"

fun loop_calls :: "env \<Rightarrow> frame_input list \<Rightarrow> bool \<Rightarrow> call list" where
  "loop_calls e [] b = [GlfwWindowShouldClose (window e)]"
| "loop_calls e (f # fs) b =
     GlfwWindowShouldClose (window e)
     # (if b then [] else frame_calls e f @ loop_calls e fs (close_requested_in f))"

definition startup :: "env \<Rightarrow> call list" where
  "startup e =
     glfw_initialize e @ [GlfwCreateWindow SCR_WIDTH SCR_HEIGHT ''LearnOpenGL'' NULL NULL]"

definition set_up :: "env \<Rightarrow> call list" where
  "set_up e = startup e
     @ [GlfwMakeContextCurrent (window e),
        GlfwSetFramebufferSizeCallback (window e),
        GladLoadGLLoader,
        ShaderConstruct ''4.1.texturevs.txt'' ''4.1.texturefs.txt'']
     @ set_up_vertex_data e @ load_and_create_texture e"

text \<open>Kinds of call, to count them in a run.\<close>

definition loop_call :: "call \<Rightarrow> bool" where
  "loop_call c =
     (case c of
        GlfwWindowShouldClose p \<Rightarrow> True
      | GlfwGetKey p k \<Rightarrow> True
      | GlfwSetWindowShouldClose p v \<Rightarrow> True
      | GlClearColor r g b a \<Rightarrow> True
      | GlClear m \<Rightarrow> True
      | GlBindTexture t i \<Rightarrow> True
      | ShaderUse \<Rightarrow> True
      | ShaderGetProgram \<Rightarrow> True
      | GlGetUniformLocation i n \<Rightarrow> True
      | GlfwGetTime \<Rightarrow> True
      | GlUniform1f l v \<Rightarrow> True
      | GlBindVertexArray i \<Rightarrow> True
      | GlDrawElements m n t off \<Rightarrow> True
      | GlfwSwapBuffers p \<Rightarrow> True
      | GlfwPollEvents \<Rightarrow> True
      | GlViewport x y wd ht \<Rightarrow> True
      | _ \<Rightarrow> False)"

definition is_create_window :: "call \<Rightarrow> bool" where
  "is_create_window c = (case c of GlfwCreateWindow wd ht title mon share \<Rightarrow> True | _ \<Rightarrow> False)"

definition is_upload :: "call \<Rightarrow> bool" where
  "is_upload c =
     (case c of GlTexImage2D t l i wd ht b f ty p \<Rightarrow> True | GlGenerateMipmap t \<Rightarrow> True
      | _ \<Rightarrow> False)"

definition is_decode :: "call \<Rightarrow> bool" where
  "is_decode c = (case c of StbiLoad file channels \<Rightarrow> True | _ \<Rightarrow> False)"

definition is_free :: "call \<Rightarrow> bool" where
  "is_free c = (case c of StbiImageFree p \<Rightarrow> True | _ \<Rightarrow> False)"

definition is_print :: "call \<Rightarrow> bool" where
  "is_print c = (case c of Print s \<Rightarrow> True | _ \<Rightarrow> False)"

definition is_delete :: "call \<Rightarrow> bool" where
  "is_delete c =
     (case c of GlDeleteVertexArrays n i \<Rightarrow> True | GlDeleteBuffers n i \<Rightarrow> True
      | GlDeleteTextures n i \<Rightarrow> True | _ \<Rightarrow> False)"

definition is_terminate :: "call \<Rightarrow> bool" where
  "is_terminate c = (case c of GlfwTerminate \<Rightarrow> True | _ \<Rightarrow> False)"

text \<open>The viewport in force after a run: the arguments of the last \<open>glViewport\<close>, if any.\<close>

definition viewport :: "call list \<Rightarrow> (c_int \<times> c_int \<times> c_int \<times> c_int) option" where
  "viewport cs =
     fold (\<lambda>c v. case c of GlViewport x y wd ht \<Rightarrow> Some (x, y, wd, ht) | _ \<Rightarrow> v) cs None"

subsection \<open>How the graphics API reads the buffers\<close>

text \<open>
  A vertex attribute as \<open>glVertexAttribPointer\<close> declares it: its index, the number and
  the type of its components, the normalisation flag, the stride and the offset in bytes,
  and the buffer object it reads, which is the one bound to \<open>GL_ARRAY_BUFFER\<close> at the
  time of the call.
\<close>

record attrib =
  attr_index :: c_uint
  attr_size :: c_int
  attr_type :: gl_enum
  attr_normalized :: gl_enum
  attr_stride :: nat
  attr_offset :: nat
  attr_buffer :: c_uint

text \<open>
  The part of the state of the graphics API that the buffer and attribute calls change:
  the buffer objects bound to the two targets (0 when none is), the uploads made (the
  buffer object written, the target it was bound to, the size in bytes and the data), the
  attributes declared and the attribute arrays enabled.
\<close>

record vertex_state =
  array_buffer :: c_uint
  element_buffer :: c_uint
  uploads :: "(c_uint \<times> gl_enum \<times> nat \<times> buffer_contents) list"
  pointers :: "attrib list"
  enabled :: "c_uint list"

definition vertex_call :: "call \<Rightarrow> bool" where
  "vertex_call c =
     (case c of
        GlBindBuffer t b \<Rightarrow> True
      | GlBufferData t n d u \<Rightarrow> True
      | GlVertexAttribPointer i n ty nm st off \<Rightarrow> True
      | GlEnableVertexAttribArray i \<Rightarrow> True
      | _ \<Rightarrow> False)"

definition vertex_step :: "call \<Rightarrow> vertex_state \<Rightarrow> vertex_state" where
  "vertex_step c s =
     (case c of
        GlBindBuffer t b \<Rightarrow>
          if t = GL_ARRAY_BUFFER then s\<lparr>array_buffer := b\<rparr>
          else if t = GL_ELEMENT_ARRAY_BUFFER then s\<lparr>element_buffer := b\<rparr>
          else s
      | GlBufferData t n d u \<Rightarrow>
          if t = GL_ARRAY_BUFFER
          then s\<lparr>uploads := uploads s @ [(array_buffer s, t, n, d)]\<rparr>
          else if t = GL_ELEMENT_ARRAY_BUFFER
          then s\<lparr>uploads := uploads s @ [(element_buffer s, t, n, d)]\<rparr>
          else s
      | GlVertexAttribPointer i n ty nm st off \<Rightarrow>
          s\<lparr>pointers := pointers s @
              [\<lparr>attr_index = i, attr_size = n, attr_type = ty, attr_normalized = nm,
                attr_stride = st, attr_offset = off, attr_buffer = array_buffer s\<rparr>]\<rparr>
      | GlEnableVertexAttribArray i \<Rightarrow> s\<lparr>enabled := enabled s @ [i]\<rparr>
      | _ \<Rightarrow> s)"

definition vertex_state_after :: "call list \<Rightarrow> vertex_state" where
  "vertex_state_after cs =
     fold vertex_step cs
       \<lparr>array_buffer = 0, element_buffer = 0, uploads = [], pointers = [], enabled = []\<rparr>"

definition tex_parameters :: "gl_enum \<Rightarrow> call list \<Rightarrow> gl_enum list" where
  "tex_parameters pname cs =
     List.map_filter
       (\<lambda>c. case c of GlTexParameteri t pn v \<Rightarrow> if pn = pname then Some v else None
             | _ \<Rightarrow> None) cs"

text \<open>
  The float stored at a byte address of a buffer of floats; nothing when the address is
  not a multiple of the float size or lies outside the buffer.
\<close>

definition float_at :: "real list \<Rightarrow> nat \<Rightarrow> real option" where
  "float_at buf addr =
     (if addr mod sizeof_float = 0 \<and> addr div sizeof_float < length buf
      then Some (buf ! (addr div sizeof_float)) else None)"

text \<open>
  The \<open>n\<close> components of an attribute with the given stride and offset, for vertex \<open>v\<close>:
  component \<open>k\<close> is read at byte \<open>off + v * stride + k * sizeof(float)\<close>.
\<close>

definition fetch :: "real list \<Rightarrow> nat \<Rightarrow> nat \<Rightarrow> nat \<Rightarrow> nat \<Rightarrow> real option list" where
  "fetch buf n st off v = map (\<lambda>k. float_at buf (off + v * st + k * sizeof_float)) [0..<n]"

text \<open>The size in bytes of one component of the declared type.\<close>

definition component_size :: "gl_enum \<Rightarrow> nat option" where
  "component_size ty =
     (if ty = GL_FLOAT then Some sizeof_float
      else if ty = GL_UNSIGNED_INT then Some sizeof_unsigned_int
      else if ty = GL_UNSIGNED_BYTE then Some 1
      else None)"

text \<open>
  One byte past the last byte an attribute occupies within a vertex: its offset plus its
  number of components times the size of the declared component type.
\<close>

definition attrib_end :: "attrib \<Rightarrow> nat option" where
  "attrib_end a =
     map_option (\<lambda>sz. attr_offset a + unat (attr_size a) * sz) (component_size (attr_type a))"

text \<open>
  What an attribute yields for vertex \<open>v\<close> from the data of its buffer. Floats are read
  only when the buffer holds floats and the attribute is declared \<open>GL_FLOAT\<close>; any other
  combination yields no float. A stride of 0 stands for tightly packed components.
\<close>

definition fetch_attrib :: "buffer_contents \<Rightarrow> attrib \<Rightarrow> nat \<Rightarrow> real option list" where
  "fetch_attrib d a v =
     (case d of
        Floats buf \<Rightarrow>
          if attr_type a = GL_FLOAT
          then fetch buf (unat (attr_size a))
                 (if attr_stride a = 0 then unat (attr_size a) * sizeof_float
                  else attr_stride a)
                 (attr_offset a) v
          else replicate (unat (attr_size a)) None
      | UInts idx \<Rightarrow> replicate (unat (attr_size a)) None)"

text \<open>\<open>GL_TRIANGLES\<close>: every three consecutive indices make one triangle.\<close>

fun triangles_of :: "c_uint list \<Rightarrow> (nat \<times> nat \<times> nat) list" where
  "triangles_of (a # b # c # rest) = (unat a, unat b, unat c) # triangles_of rest"
| "triangles_of rest = []"

definition draw_elements :: "nat \<Rightarrow> nat \<Rightarrow> c_uint list \<Rightarrow> (nat \<times> nat \<times> nat) list" where
  "draw_elements count off idx =
     triangles_of (take count (drop (off div sizeof_unsigned_int) idx))"

subsection \<open>The quad in the plane\<close>

type_synonym point = "real \<times> real"

text \<open>The x and y of vertex \<open>v\<close> of the four (the first two floats of its eight), its
  z and its texture coordinate (the last two).\<close>

definition position :: "nat \<Rightarrow> point" where
  "position v = (vertices ! (8 * v), vertices ! (8 * v + 1))"

definition depth :: "nat \<Rightarrow> real" where
  "depth v = vertices ! (8 * v + 2)"

definition tex_coord :: "nat \<Rightarrow> point" where
  "tex_coord v = (vertices ! (8 * v + 6), vertices ! (8 * v + 7))"

definition in_unit_square :: "point \<Rightarrow> bool" where
  "in_unit_square p = (0 \<le> fst p \<and> fst p \<le> 1 \<and> 0 \<le> snd p \<and> snd p \<le> 1)"

text \<open>Twice the signed area of the triangle \<open>a b p\<close>.\<close>

definition cross :: "point \<Rightarrow> point \<Rightarrow> point \<Rightarrow> real" where
  "cross a b p = (fst b - fst a) * (snd p - snd a) - (snd b - snd a) * (fst p - fst a)"

text \<open>A point is in a triangle (edges included) when it is on the same side of the
  three edges; strictly inside when it is on none of them.\<close>

definition in_triangle :: "nat \<times> nat \<times> nat \<Rightarrow> point \<Rightarrow> bool" where
  "in_triangle t p =
     (case t of (i, j, k) \<Rightarrow>
        let d1 = cross (position i) (position j) p;
            d2 = cross (position j) (position k) p;
            d3 = cross (position k) (position i) p
        in (0 \<le> d1 \<and> 0 \<le> d2 \<and> 0 \<le> d3) \<or> (d1 \<le> 0 \<and> d2 \<le> 0 \<and> d3 \<le> 0))"

definition strictly_inside :: "nat \<times> nat \<times> nat \<Rightarrow> point \<Rightarrow> bool" where
  "strictly_inside t p =
     (case t of (i, j, k) \<Rightarrow>
        let d1 = cross (position i) (position j) p;
            d2 = cross (position j) (position k) p;
            d3 = cross (position k) (position i) p
        in (0 < d1 \<and> 0 < d2 \<and> 0 < d3) \<or> (d1 < 0 \<and> d2 < 0 \<and> d3 < 0))"

definition in_quad :: "point \<Rightarrow> bool" where
  "in_quad p = (- 0.5 \<le> fst p \<and> fst p \<le> 0.5 \<and> - 0.5 \<le> snd p \<and> snd p \<le> 0.5)"

text \<open>The segment between two vertices.\<close>

definition on_edge :: "nat \<Rightarrow> nat \<Rightarrow> point \<Rightarrow> bool" where
  "on_edge i j p =
     (let a = position i; b = position j
      in cross a b p = 0
         \<and> min (fst a) (fst b) \<le> fst p \<and> fst p \<le> max (fst a) (fst b)
         \<and> min (snd a) (snd b) \<le> snd p \<and> snd p \<le> max (snd a) (snd b))"

subsection \<open>Sample environments\<close>

definition frame_idle :: frame_input where
  "frame_idle =
     \<lparr>escape_key = GLFW_RELEASE, time_location = 0, clock = 0, polled = []\<rparr>"

definition frame_resized :: frame_input where
  "frame_resized =
     \<lparr>escape_key = GLFW_RELEASE, time_location = 0, clock = 1,
      polled = [FramebufferResized 1024 768]\<rparr>"

definition frame_escape :: frame_input where
  "frame_escape =
     \<lparr>escape_key = GLFW_PRESS, time_location = 0, clock = 2, polled = []\<rparr>"

text \<open>
  Everything succeeds; the escape key is pressed in the third frame. The clock readings of
  the sample frames are 0, 1 and 2, which are \<open>float\<close> values already, so the conversion
  leaves them as they are.
\<close>

definition env_ok :: env where
  "env_ok =
     \<lparr>apple = False, float_of_double = (\<lambda>x. x), window = 4096, glad_loaded = True, program = 3,
      VAO = 1, VBO = 1, EBO = 2, texture = 1,
      data = 8192, width = 512, height = 512,
      frames = [frame_idle, frame_resized, frame_escape, frame_idle]\<rparr>"

definition world_start :: world where
  "world_start = \<lparr>calls = [], should_close = False\<rparr>"

definition env_no_window :: env where
  "env_no_window = env_ok\<lparr>window := NULL\<rparr>"

definition env_no_glad :: env where
  "env_no_glad = env_ok\<lparr>glad_loaded := False\<rparr>"

definition env_no_image :: env where
  "env_no_image = env_ok\<lparr>data := NULL\<rparr>"

section \<open>Properties\<close>

subsection \<open>The calls of a run\<close>

lemma calls_emit [simp]: "calls (emit c w) = calls w @ [c]"
  by (simp add: emit_def)

lemma should_close_emit [simp]: "should_close (emit c w) = should_close w"
  by (simp add: emit_def)

lemma calls_emits [simp]: "calls (emits cs w) = calls w @ cs"
  by (simp add: emits_def)

lemma should_close_emits [simp]: "should_close (emits cs w) = should_close w"
  by (simp add: emits_def)

lemma calls_deliver:
  "calls (fold (deliver win) evs w) = calls w @ concat (map callback_calls evs)"
proof (induction evs arbitrary: w)
  case Nil
  show ?case by simp
next
  case (Cons ev evs)
  show ?case by (cases ev) (simp_all add: Cons.IH framebuffer_size_callback_def)
qed

lemma should_close_deliver:
  "should_close (fold (deliver win) evs w) = (should_close w \<or> CloseRequested \<in> set evs)"
proof (induction evs arbitrary: w)
  case Nil
  show ?case by simp
next
  case (Cons ev evs)
  show ?case by (cases ev) (auto simp add: Cons.IH framebuffer_size_callback_def)
qed

lemma calls_frame: "calls (frame e f w) = calls w @ frame_calls e f"
  by (simp add: frame_def frame_calls_def processInput_def glfwSetWindowShouldClose_def
      glfwPollEvents_def calls_deliver Let_def)

lemma should_close_frame:
  "should_close (frame e f w) = (should_close w \<or> close_requested_in f)"
  by (auto simp add: frame_def close_requested_in_def processInput_def
      glfwSetWindowShouldClose_def glfwPollEvents_def should_close_deliver Let_def)

lemma calls_render_loop:
  "calls (snd (render_loop e fs w)) = calls w @ loop_calls e fs (should_close w)"
proof (induction fs arbitrary: w)
  case Nil
  show ?case by (simp add: Let_def)
next
  case (Cons f fs)
  show ?case by (simp add: Let_def Cons.IH calls_frame should_close_frame)
qed

lemma left_render_loop:
  "fst (render_loop e fs w) = (should_close w \<or> (\<exists>f \<in> set fs. close_requested_in f))"
proof (induction fs arbitrary: w)
  case Nil
  show ?case by (simp add: Let_def)
next
  case (Cons f fs)
  show ?case by (auto simp add: Let_def Cons.IH should_close_frame)
qed

lemma main_window_failure:
  "window e = NULL \<Longrightarrow>
   main e = (startup e @ [Print ''Failed to create GLFW window'', GlfwTerminate], Some (- 1))"
  by (simp add: main_def startup_def Let_def)

lemma main_glad_failure:
  "window e \<noteq> NULL \<Longrightarrow> \<not> glad_loaded e \<Longrightarrow>
   main e = (startup e @ [GlfwMakeContextCurrent (window e),
                          GlfwSetFramebufferSizeCallback (window e),
                          GladLoadGLLoader,
                          Print ''Failed to initialize GLAD''], Some (- 1))"
  by (simp add: main_def startup_def Let_def)

lemma main_render:
  assumes "window e \<noteq> NULL" and "glad_loaded e"
  shows "main e =
    (set_up e @ loop_calls e (frames e) False
       @ (if \<exists>f \<in> set (frames e). close_requested_in f
          then de_allocate e @ [GlfwTerminate] else []),
     if \<exists>f \<in> set (frames e). close_requested_in f then Some 0 else None)"
proof -
  let ?w = "\<lparr>calls = set_up e, should_close = False\<rparr>"
  have m: "main e = (let (left, w) = render_loop e (frames e) ?w
      in if left then (calls (emits (de_allocate e @ [GlfwTerminate]) w), Some 0)
         else (calls w, None))"
    using assms by (simp add: main_def set_up_def startup_def Let_def emits_def emit_def)
  have l: "fst (render_loop e (frames e) ?w) = (\<exists>f \<in> set (frames e). close_requested_in f)"
    by (simp add: left_render_loop)
  have c: "calls (snd (render_loop e (frames e) ?w)) = set_up e @ loop_calls e (frames e) False"
    by (simp add: calls_render_loop)
  show ?thesis
    using l c by (simp add: m split_beta Let_def)
qed

lemma loop_call_not_decode: "loop_call c \<Longrightarrow> \<not> is_decode c"
  by (cases c) (simp_all add: loop_call_def is_decode_def)

lemma should_close_render_loop:
  "should_close (snd (render_loop e fs w)) = fst (render_loop e fs w)"
proof (induction fs arbitrary: w)
  case Nil
  show ?case by (simp add: Let_def)
next
  case (Cons f fs)
  show ?case by (simp add: Let_def Cons.IH)
qed

lemma render_loop_closed:
  "should_close w \<Longrightarrow> render_loop e fs w = (True, emit (GlfwWindowShouldClose (window e)) w)"
  by (cases fs) (simp_all add: Let_def)

lemma render_loop_until:
  assumes "\<not> should_close w" and "list_all (\<lambda>f. \<not> close_requested_in f) pre"
    and "close_requested_in f'"
  shows "render_loop e (pre @ f' # post) w =
    (True, emit (GlfwWindowShouldClose (window e))
       (fold (\<lambda>f w. frame e f (emit (GlfwWindowShouldClose (window e)) w)) (pre @ [f']) w))"
  using assms
proof (induction pre arbitrary: w)
  case Nil
  then show ?case by (simp add: Let_def render_loop_closed should_close_frame)
next
  case (Cons f pre)
  then show ?case by (simp add: Let_def should_close_frame)
qed

lemma filter_main_cases:
  "filter P (fst (main e)) =
     (if window e = NULL
      then filter P (startup e @ [Print ''Failed to create GLFW window'', GlfwTerminate])
      else if \<not> glad_loaded e
      then filter P (startup e @ [GlfwMakeContextCurrent (window e),
             GlfwSetFramebufferSizeCallback (window e), GladLoadGLLoader,
             Print ''Failed to initialize GLAD''])
      else filter P (set_up e) @ filter P (loop_calls e (frames e) False)
           @ (if \<exists>f \<in> set (frames e). close_requested_in f
              then filter P (de_allocate e @ [GlfwTerminate]) else []))"
  by (simp add: main_window_failure main_glad_failure main_render)

lemma main_status:
  "snd (main e) =
     (if window e = NULL \<or> \<not> glad_loaded e then Some (- 1)
      else if \<exists>f \<in> set (frames e). close_requested_in f then Some 0 else None)"
  by (cases "window e = NULL"; cases "glad_loaded e";
      simp add: main_window_failure main_glad_failure main_render)

lemma loop_call_callback: "list_all loop_call (concat (map callback_calls evs))"
proof (induction evs)
  case Nil
  show ?case by simp
next
  case (Cons ev evs)
  then show ?case by (cases ev) (simp_all add: loop_call_def)
qed

lemma loop_call_frame: "list_all loop_call (frame_calls e f)"
  by (simp add: frame_calls_def loop_call_callback) (simp add: loop_call_def)

lemma loop_call_loop: "list_all loop_call (loop_calls e fs b)"
proof (induction fs arbitrary: b)
  case Nil
  show ?case by (simp add: loop_call_def)
next
  case (Cons f fs)
  show ?case by (simp add: Cons.IH loop_call_frame) (simp add: loop_call_def)
qed

lemma filter_loop_calls:
  assumes "\<And>c. loop_call c \<Longrightarrow> \<not> P c"
  shows "filter P (loop_calls e fs b) = []"
  using loop_call_loop [of e fs b] assms by (auto simp add: filter_empty_conv list_all_iff)

lemma loop_call_not_create_window: "loop_call c \<Longrightarrow> \<not> is_create_window c"
  by (cases c) (simp_all add: loop_call_def is_create_window_def)

lemma loop_call_not_upload: "loop_call c \<Longrightarrow> \<not> is_upload c"
  by (cases c) (simp_all add: loop_call_def is_upload_def)

lemma loop_call_not_free: "loop_call c \<Longrightarrow> \<not> is_free c"
  by (cases c) (simp_all add: loop_call_def is_free_def)

lemma loop_call_not_print: "loop_call c \<Longrightarrow> \<not> is_print c"
  by (cases c) (simp_all add: loop_call_def is_print_def)

lemma loop_call_not_delete: "loop_call c \<Longrightarrow> \<not> is_delete c"
  by (cases c) (simp_all add: loop_call_def is_delete_def)

lemma loop_call_not_terminate: "loop_call c \<Longrightarrow> \<not> is_terminate c"
  by (cases c) (simp_all add: loop_call_def is_terminate_def)

lemmas set_up_defs =
  set_up_def startup_def glfw_initialize_def set_up_vertex_data_def
  load_and_create_texture_def de_allocate_def

subsection \<open>The vertex data, the triangles and the texture parameters\<close>

lemma position_simps:
  "position 0 = (0.5, 0.5)" "position 1 = (0.5, - 0.5)"
  "position 2 = (- 0.5, - 0.5)" "position 3 = (- 0.5, 0.5)"
  by (simp_all add: position_def vertices_def)

lemma position_Suc_0: "position (Suc 0) = (0.5, - 0.5)"
  by (simp add: position_def vertices_def)

lemma in_triangle_013:
  "in_triangle (0, 1, 3) (x, y) =
     (x \<le> 1 / 2 \<and> y \<le> 1 / 2 \<and> 0 \<le> x + y)"
  by (simp add: in_triangle_def cross_def position_simps position_Suc_0 Let_def) argo

lemma in_triangle_123:
  "in_triangle (1, 2, 3) (x, y) =
     (- (1 / 2) \<le> x \<and> - (1 / 2) \<le> y \<and> x + y \<le> 0)"
  by (simp add: in_triangle_def cross_def position_simps position_Suc_0 Let_def) argo

lemma strictly_inside_013:
  "strictly_inside (0, 1, 3) (x, y) =
     (x < 1 / 2 \<and> y < 1 / 2 \<and> 0 < x + y)"
  by (simp add: strictly_inside_def cross_def position_simps position_Suc_0 Let_def) argo

lemma strictly_inside_123:
  "strictly_inside (1, 2, 3) (x, y) =
     (- (1 / 2) < x \<and> - (1 / 2) < y \<and> x + y < 0)"
  by (simp add: strictly_inside_def cross_def position_simps position_Suc_0 Let_def) argo

lemma on_edge_13: "on_edge 1 3 (x, y) = (x + y = 0 \<and> - (1 / 2) \<le> x \<and> x \<le> 1 / 2)"
  by (simp add: on_edge_def cross_def position_simps position_Suc_0 Let_def) argo


lemma tex_coord_simps:
  "tex_coord 0 = (1, 1)" "tex_coord 1 = (1, 0)" "tex_coord 2 = (0, 0)" "tex_coord 3 = (0, 1)"
  by (simp_all add: tex_coord_def vertices_def)

lemma fetch_position:
  "map (fetch vertices 3 32 0) [0, 1, 2, 3] =
     [[Some 0.5, Some 0.5, Some 0], [Some 0.5, Some (- 0.5), Some 0],
      [Some (- 0.5), Some (- 0.5), Some 0], [Some (- 0.5), Some 0.5, Some 0]]"
  by (simp add: fetch_def float_at_def sizeof_float_def vertices_def upt_rec)

lemma fetch_colour:
  "map (fetch vertices 3 32 12) [0, 1, 2, 3] =
     [[Some 1, Some 0, Some 0], [Some 0, Some 1, Some 0],
      [Some 0, Some 0, Some 1], [Some 1, Some 1, Some 0]]"
  by (simp add: fetch_def float_at_def sizeof_float_def vertices_def upt_rec)

lemma fetch_tex_coord:
  "map (fetch vertices 2 32 24) [0, 1, 2, 3] =
     [[Some 1, Some 1], [Some 1, Some 0], [Some 0, Some 0], [Some 0, Some 1]]"
  by (simp add: fetch_def float_at_def sizeof_float_def vertices_def upt_rec)

lemma fetch_beyond:
  "fetch vertices 3 32 0 4 = [None, None, None]"
  by (simp add: fetch_def float_at_def sizeof_float_def vertices_def upt_rec)

lemma vertex_state_set_up:
  "vertex_state_after (set_up_vertex_data e) =
     \<lparr>array_buffer = VBO e, element_buffer = EBO e,
      uploads =
        [(VBO e, GL_ARRAY_BUFFER, 128, Floats vertices),
         (EBO e, GL_ELEMENT_ARRAY_BUFFER, 24, UInts indices)],
      pointers =
        [\<lparr>attr_index = 0, attr_size = 3, attr_type = GL_FLOAT, attr_normalized = GL_FALSE,
          attr_stride = 32, attr_offset = 0, attr_buffer = VBO e\<rparr>,
         \<lparr>attr_index = 1, attr_size = 3, attr_type = GL_FLOAT, attr_normalized = GL_FALSE,
          attr_stride = 32, attr_offset = 12, attr_buffer = VBO e\<rparr>,
         \<lparr>attr_index = 2, attr_size = 2, attr_type = GL_FLOAT, attr_normalized = GL_FALSE,
          attr_stride = 32, attr_offset = 24, attr_buffer = VBO e\<rparr>],
      enabled = [0, 1, 2]\<rparr>"
proof -
  have "length vertices * sizeof_float = 128"
    by (simp add: vertices_def sizeof_float_def)
  moreover have "length indices * sizeof_unsigned_int = 24"
    by (simp add: indices_def sizeof_unsigned_int_def)
  ultimately show ?thesis
    by (simp add: vertex_state_after_def set_up_vertex_data_def vertex_step_def
        sizeof_float_def)
qed

lemma vertex_step_other: "\<not> vertex_call c \<Longrightarrow> vertex_step c s = s"
  by (cases c) (simp_all add: vertex_call_def vertex_step_def)

lemma fold_vertex_step_other:
  "list_all (\<lambda>c. \<not> vertex_call c) cs \<Longrightarrow> fold vertex_step cs s = s"
  by (induction cs arbitrary: s) (simp_all add: vertex_step_other)

lemma loop_call_not_vertex: "loop_call c \<Longrightarrow> \<not> vertex_call c"
  by (cases c) (simp_all add: loop_call_def vertex_call_def)

lemma loop_calls_not_vertex: "list_all (\<lambda>c. \<not> vertex_call c) (loop_calls e fs b)"
  using loop_call_loop [of e fs b] by (auto simp add: list_all_iff loop_call_not_vertex)

lemma texture_calls_not_vertex:
  "list_all (\<lambda>c. \<not> vertex_call c) (load_and_create_texture e)"
  by (simp add: load_and_create_texture_def vertex_call_def)

lemma vertex_state_main:
  assumes "window e \<noteq> NULL" and "glad_loaded e"
  shows "vertex_state_after (fst (main e)) = vertex_state_after (set_up_vertex_data e)"
proof -
  define before where "before = startup e @ [GlfwMakeContextCurrent (window e),
    GlfwSetFramebufferSizeCallback (window e), GladLoadGLLoader,
    ShaderConstruct ''4.1.texturevs.txt'' ''4.1.texturefs.txt'']"
  define after where "after = load_and_create_texture e @ loop_calls e (frames e) False
    @ (if \<exists>f \<in> set (frames e). close_requested_in f
       then de_allocate e @ [GlfwTerminate] else [])"
  have m: "fst (main e) = before @ set_up_vertex_data e @ after"
    by (simp add: main_render [OF assms] set_up_def before_def after_def)
  have "list_all (\<lambda>c. \<not> vertex_call c) before"
    by (simp add: before_def startup_def glfw_initialize_def vertex_call_def)
  then have b: "fold vertex_step before s = s" for s
    by (rule fold_vertex_step_other)
  have "list_all (\<lambda>c. \<not> vertex_call c) after"
    by (simp add: after_def texture_calls_not_vertex loop_calls_not_vertex)
      (simp add: de_allocate_def vertex_call_def)
  then have a: "fold vertex_step after s = s" for s
    by (rule fold_vertex_step_other)
  show ?thesis
    by (simp add: m vertex_state_after_def a b)
qed

lemma attrib_ends_set_up:
  "map attrib_end (pointers (vertex_state_after (set_up_vertex_data e))) =
     [Some 12, Some 24, Some 32]"
  by (simp add: vertex_state_set_up attrib_end_def component_size_def sizeof_float_def)

lemma fetch_attrib_float:
  "attr_type a = GL_FLOAT \<Longrightarrow> attr_stride a \<noteq> 0 \<Longrightarrow>
   fetch_attrib (Floats buf) a v =
     fetch buf (unat (attr_size a)) (attr_stride a) (attr_offset a) v"
  by (simp add: fetch_attrib_def)

lemma fetch_vertices:
  "map (\<lambda>v. map (\<lambda>a. fetch_attrib (Floats vertices) a v)
          (pointers (vertex_state_after (set_up_vertex_data e)))) [0, 1, 2, 3] =
     [[[Some 0.5, Some 0.5, Some 0], [Some 1, Some 0, Some 0], [Some 1, Some 1]],
      [[Some 0.5, Some (- 0.5), Some 0], [Some 0, Some 1, Some 0], [Some 1, Some 0]],
      [[Some (- 0.5), Some (- 0.5), Some 0], [Some 0, Some 0, Some 1], [Some 0, Some 0]],
      [[Some (- 0.5), Some 0.5, Some 0], [Some 1, Some 1, Some 0], [Some 0, Some 1]]]"
  using fetch_position fetch_colour fetch_tex_coord
  by (simp add: vertex_state_set_up fetch_attrib_float)

lemma fetch_fifth_vertex:
  "map (\<lambda>a. fetch_attrib (Floats vertices) a 4)
     (pointers (vertex_state_after (set_up_vertex_data e))) =
     [[None, None, None], [None, None, None], [None, None]]"
  by (simp add: vertex_state_set_up fetch_attrib_float)
     (simp add: fetch_def float_at_def sizeof_float_def vertices_def upt_rec)

lemma drawn_triangles: "draw_elements 6 0 indices = [(0, 1, 3), (1, 2, 3)]"
  by (simp add: draw_elements_def indices_def)

lemma indices_in_range: "list_all (\<lambda>i. unat i \<le> 3) indices"
  by (simp add: indices_def)

lemma triangles_cover_quad: "in_quad p = (in_triangle (0, 1, 3) p \<or> in_triangle (1, 2, 3) p)"
proof (cases p)
  case (Pair x y)
  show ?thesis
    unfolding Pair in_triangle_013 in_triangle_123 in_quad_def by auto
qed

lemma triangles_interiors_disjoint: "\<not> (strictly_inside (0, 1, 3) p \<and> strictly_inside (1, 2, 3) p)"
proof (cases p)
  case (Pair x y)
  show ?thesis
    unfolding Pair strictly_inside_013 strictly_inside_123 by auto
qed

lemma triangles_share_diagonal: "(in_triangle (0, 1, 3) p \<and> in_triangle (1, 2, 3) p) = on_edge 1 3 p"
proof (cases p)
  case (Pair x y)
  show ?thesis
    unfolding Pair in_triangle_013 in_triangle_123 on_edge_13 by auto
qed

lemma wrap_parameters:
  "tex_parameters GL_TEXTURE_WRAP_S (load_and_create_texture e) = [GL_REPEAT]"
  "tex_parameters GL_TEXTURE_WRAP_T (load_and_create_texture e) = [GL_REPEAT]"
  by (simp_all add: tex_parameters_def load_and_create_texture_def)

lemma viewport_last: "viewport (cs @ [GlViewport x y wd ht]) = Some (x, y, wd, ht)"
  by (simp add: viewport_def)

lemma delete_main:
  "filter is_delete (fst (main e)) =
     (if snd (main e) = Some 0
      then [GlDeleteVertexArrays 1 (VAO e), GlDeleteBuffers 1 (VBO e), GlDeleteBuffers 1 (EBO e)]
      else [])"
  by (simp add: filter_main_cases main_status filter_loop_calls loop_call_not_delete)
     (simp add: set_up_defs is_delete_def)

lemma upload_main:
  "window e \<noteq> NULL \<Longrightarrow> glad_loaded e \<Longrightarrow> data e = NULL \<Longrightarrow>
   filter is_upload (fst (main e)) = []"
  by (simp add: filter_main_cases filter_loop_calls loop_call_not_upload)
     (simp add: set_up_defs is_upload_def)

lemma print_main:
  "window e \<noteq> NULL \<Longrightarrow> glad_loaded e \<Longrightarrow> data e = NULL \<Longrightarrow>
   filter is_print (fst (main e)) = [Print ''Failed to load texture'']"
  by (simp add: filter_main_cases filter_loop_calls loop_call_not_print)
     (simp add: set_up_defs is_print_def)

lemma create_window_main:
  "filter is_create_window (fst (main e)) = [GlfwCreateWindow 800 600 ''LearnOpenGL'' NULL NULL]"
  by (simp add: filter_main_cases filter_loop_calls loop_call_not_create_window)
     (simp add: set_up_defs is_create_window_def SCR_WIDTH_def SCR_HEIGHT_def)

lemma loop_entered:
  "window e \<noteq> NULL \<Longrightarrow> glad_loaded e \<Longrightarrow> GlfwWindowShouldClose (window e) \<in> set (fst (main e))"
  by (cases "frames e") (simp_all add: main_render)

section \<open>The claims\<close>

text \<open>
  Claim C1. \<open>main\<close> returns 0 when the render loop is left (the close flag was seen) and
  -1 when the window could not be created or the driver functions could not be resolved,
  and nothing else; as long as no frame asks to close, it has not returned. In each failure
  case the run is exactly: the GLFW initialisation, the window creation (then, for the
  second, making the context current, registering the resize callback and the loader
  call), the diagnostic, and for the first \<open>glfwTerminate\<close>. No later set-up call and no
  render-loop call is made.
\<close>

theorem main_exit_status:
  "map_option sint (snd (main e)) =
     (if window e = NULL \<or> \<not> glad_loaded e then Some (- 1)
      else if \<exists>f \<in> set (frames e). close_requested_in f then Some 0 else None)
   \<and> (window e = NULL \<longrightarrow>
        fst (main e) = glfw_initialize e
          @ [GlfwCreateWindow 800 600 ''LearnOpenGL'' NULL NULL,
             Print ''Failed to create GLFW window'',
             GlfwTerminate])
   \<and> (window e \<noteq> NULL \<and> \<not> glad_loaded e \<longrightarrow>
        fst (main e) = glfw_initialize e
          @ [GlfwCreateWindow 800 600 ''LearnOpenGL'' NULL NULL,
             GlfwMakeContextCurrent (window e),
             GlfwSetFramebufferSizeCallback (window e),
             GladLoadGLLoader,
             Print ''Failed to initialize GLAD''])"
  by (simp add: main_status main_window_failure main_glad_failure startup_def
      SCR_WIDTH_def SCR_HEIGHT_def)

theorem main_exit_status_witness:
  "map_option sint (snd (main env_no_window)) = Some (- 1)
   \<and> fst (main env_no_window) =
     [GlfwInit,
      GlfwWindowHint GLFW_CONTEXT_VERSION_MAJOR (Int_value 3),
      GlfwWindowHint GLFW_CONTEXT_VERSION_MINOR (Int_value 3),
      GlfwWindowHint GLFW_OPENGL_PROFILE GLFW_OPENGL_CORE_PROFILE,
      GlfwCreateWindow 800 600 ''LearnOpenGL'' 0 0,
      Print ''Failed to create GLFW window'',
      GlfwTerminate]
   \<and> map_option sint (snd (main env_no_glad)) = Some (- 1)
   \<and> fst (main env_no_glad) =
     [GlfwInit,
      GlfwWindowHint GLFW_CONTEXT_VERSION_MAJOR (Int_value 3),
      GlfwWindowHint GLFW_CONTEXT_VERSION_MINOR (Int_value 3),
      GlfwWindowHint GLFW_OPENGL_PROFILE GLFW_OPENGL_CORE_PROFILE,
      GlfwCreateWindow 800 600 ''LearnOpenGL'' 0 0,
      GlfwMakeContextCurrent 4096,
      GlfwSetFramebufferSizeCallback 4096,
      GladLoadGLLoader,
      Print ''Failed to initialize GLAD'']
   \<and> map_option sint (snd (main env_ok)) = Some 0
   \<and> map_option sint (snd (main (env_ok\<lparr>frames := [frame_idle, frame_resized]\<rparr>))) = None"
  using main_exit_status [of env_no_window] main_exit_status [of env_no_glad]
    main_exit_status [of env_ok]
    main_exit_status [of "env_ok\<lparr>frames := [frame_idle, frame_resized]\<rparr>"]
  by (simp add: env_no_window_def env_no_glad_def env_ok_def NULL_def
      glfw_initialize_def close_requested_in_def frame_idle_def frame_resized_def
      frame_escape_def)

text \<open>
  Claim C2, as stated (after a failed decode the upload with \<open>glTexImage2D\<close> and the
  mip-map request are still performed), does not hold: in the run below the decode is
  called and returns the null pointer, and neither call is made.
\<close>

theorem decode_failure_still_uploads_counterexample:
  "data env_no_image = NULL
   \<and> filter is_decode (fst (main env_no_image)) = [StbiLoad ''container.jpg'' 0]
   \<and> filter is_upload (fst (main env_no_image)) = []"
  by (simp add: filter_main_cases filter_loop_calls loop_call_not_upload loop_call_not_decode)
     (simp add: env_no_image_def env_ok_def NULL_def set_up_defs is_upload_def is_decode_def)

text \<open>
  Claim C2, amended. When the decode returns the null pointer, the texture section is: the
  texture object is generated, bound and given its four parameters, the decode is called,
  the diagnostic is printed and the null pointer is freed. The upload and the mip-map
  request are skipped (they are guarded by \<open>if (data)\<close>), the diagnostic is the only thing
  printed, and the program does not abort: it enters the render loop and returns 0 once a
  frame asks to close.
\<close>

theorem decode_failure_skips_upload:
  "window e \<noteq> NULL \<and> glad_loaded e \<and> data e = NULL \<longrightarrow>
     load_and_create_texture e =
       [GlGenTextures 1,
        GlBindTexture GL_TEXTURE_2D (texture e),
        GlTexParameteri GL_TEXTURE_2D GL_TEXTURE_WRAP_S GL_REPEAT,
        GlTexParameteri GL_TEXTURE_2D GL_TEXTURE_WRAP_T GL_REPEAT,
        GlTexParameteri GL_TEXTURE_2D GL_TEXTURE_MIN_FILTER GL_LINEAR,
        GlTexParameteri GL_TEXTURE_2D GL_TEXTURE_MAG_FILTER GL_LINEAR,
        StbiLoad ''container.jpg'' 0,
        Print ''Failed to load texture'',
        StbiImageFree NULL]
     \<and> filter is_print (fst (main e)) = [Print ''Failed to load texture'']
     \<and> filter is_upload (fst (main e)) = []
     \<and> GlfwWindowShouldClose (window e) \<in> set (fst (main e))
     \<and> snd (main e) =
         (if \<exists>f \<in> set (frames e). close_requested_in f then Some 0 else None)"
  by (simp add: upload_main print_main loop_entered main_status)
     (simp add: load_and_create_texture_def)

theorem decode_failure_skips_upload_witness:
  "filter is_print (fst (main env_no_image)) = [Print ''Failed to load texture'']
   \<and> filter is_upload (fst (main env_no_image)) = []
   \<and> GlfwWindowShouldClose 4096 \<in> set (fst (main env_no_image))
   \<and> snd (main env_no_image) = Some 0"
  using decode_failure_skips_upload [of env_no_image]
  by (simp add: env_no_image_def env_ok_def NULL_def close_requested_in_def frame_escape_def)

text \<open>
  Claim C3. Once the window exists and the driver functions are resolved, every run,
  whatever the decode returns and whatever happens in the render loop, makes the decode
  call once and then frees exactly once, with the pointer the decode returned: the null
  pointer when it failed.
\<close>

theorem image_freed_once:
  "window e \<noteq> NULL \<and> glad_loaded e \<longrightarrow>
     filter is_free (fst (main e)) = [StbiImageFree (data e)]
     \<and> filter (\<lambda>c. is_decode c \<or> is_free c) (fst (main e)) =
         [StbiLoad ''container.jpg'' 0, StbiImageFree (data e)]"
  by (simp add: filter_main_cases filter_loop_calls loop_call_not_free loop_call_not_decode)
     (simp add: set_up_defs is_free_def is_decode_def)

theorem image_freed_once_witness:
  "filter is_free (fst (main env_ok)) = [StbiImageFree 8192]
   \<and> filter (\<lambda>c. is_decode c \<or> is_free c) (fst (main env_ok)) =
       [StbiLoad ''container.jpg'' 0, StbiImageFree 8192]
   \<and> filter is_free (fst (main env_no_image)) = [StbiImageFree NULL]
   \<and> filter (\<lambda>c. is_decode c \<or> is_free c) (fst (main env_no_image)) =
       [StbiLoad ''container.jpg'' 0, StbiImageFree NULL]"
  using image_freed_once [of env_ok] image_freed_once [of env_no_image]
  by (simp add: env_no_image_def env_ok_def NULL_def)

text \<open>
  Claim C4. After the vertex set-up the attributes declared are, in this order: attribute 0
  with 3 components at byte offset 0, attribute 1 with 3 components at offset 12 and
  attribute 2 with 2 components at offset 24, each of type \<open>GL_FLOAT\<close>, not normalised,
  with a stride of 32 bytes, and each reading the buffer object \<open>VBO\<close>. With the size of
  the declared type they end at bytes 12, 24 and 32, so they tile the stride with neither
  gap nor overlap. The three arrays are enabled. The data uploaded to \<open>VBO\<close> through
  \<open>GL_ARRAY_BUFFER\<close> is 4 * 32 bytes, the 32 floats of \<open>vertices\<close>. Read through the
  declared attributes, the four vertices have the positions, colours and texture
  coordinates written in the rows of the array, and there is no fifth vertex. Nothing
  else in a run of \<open>main\<close> that gets past the two fatal checks changes any of this.
\<close>

theorem vertex_layout_matches_attrib_pointers:
  "pointers (vertex_state_after (set_up_vertex_data e)) =
     [\<lparr>attr_index = 0, attr_size = 3, attr_type = GL_FLOAT, attr_normalized = GL_FALSE,
       attr_stride = 32, attr_offset = 0, attr_buffer = VBO e\<rparr>,
      \<lparr>attr_index = 1, attr_size = 3, attr_type = GL_FLOAT, attr_normalized = GL_FALSE,
       attr_stride = 32, attr_offset = 12, attr_buffer = VBO e\<rparr>,
      \<lparr>attr_index = 2, attr_size = 2, attr_type = GL_FLOAT, attr_normalized = GL_FALSE,
       attr_stride = 32, attr_offset = 24, attr_buffer = VBO e\<rparr>]
   \<and> map attrib_end (pointers (vertex_state_after (set_up_vertex_data e))) =
       [Some 12, Some 24, Some 32]
   \<and> enabled (vertex_state_after (set_up_vertex_data e)) = [0, 1, 2]
   \<and> uploads (vertex_state_after (set_up_vertex_data e)) =
       [(VBO e, GL_ARRAY_BUFFER, 4 * 32, Floats vertices),
        (EBO e, GL_ELEMENT_ARRAY_BUFFER, 6 * 4, UInts indices)]
   \<and> length vertices = 4 * 8
   \<and> map (\<lambda>v. map (\<lambda>a. fetch_attrib (Floats vertices) a v)
            (pointers (vertex_state_after (set_up_vertex_data e)))) [0, 1, 2, 3] =
       [[[Some 0.5, Some 0.5, Some 0], [Some 1, Some 0, Some 0], [Some 1, Some 1]],
        [[Some 0.5, Some (- 0.5), Some 0], [Some 0, Some 1, Some 0], [Some 1, Some 0]],
        [[Some (- 0.5), Some (- 0.5), Some 0], [Some 0, Some 0, Some 1], [Some 0, Some 0]],
        [[Some (- 0.5), Some 0.5, Some 0], [Some 1, Some 1, Some 0], [Some 0, Some 1]]]
   \<and> map (\<lambda>a. fetch_attrib (Floats vertices) a 4)
         (pointers (vertex_state_after (set_up_vertex_data e))) =
       [[None, None, None], [None, None, None], [None, None]]
   \<and> (window e \<noteq> NULL \<and> glad_loaded e \<longrightarrow>
        vertex_state_after (fst (main e)) = vertex_state_after (set_up_vertex_data e))"
proof -
  have p: "pointers (vertex_state_after (set_up_vertex_data e)) =
     [\<lparr>attr_index = 0, attr_size = 3, attr_type = GL_FLOAT, attr_normalized = GL_FALSE,
       attr_stride = 32, attr_offset = 0, attr_buffer = VBO e\<rparr>,
      \<lparr>attr_index = 1, attr_size = 3, attr_type = GL_FLOAT, attr_normalized = GL_FALSE,
       attr_stride = 32, attr_offset = 12, attr_buffer = VBO e\<rparr>,
      \<lparr>attr_index = 2, attr_size = 2, attr_type = GL_FLOAT, attr_normalized = GL_FALSE,
       attr_stride = 32, attr_offset = 24, attr_buffer = VBO e\<rparr>]"
    by (simp add: vertex_state_set_up)
  have n: "enabled (vertex_state_after (set_up_vertex_data e)) = [0, 1, 2]"
    by (simp add: vertex_state_set_up)
  have u: "uploads (vertex_state_after (set_up_vertex_data e)) =
       [(VBO e, GL_ARRAY_BUFFER, 4 * 32, Floats vertices),
        (EBO e, GL_ELEMENT_ARRAY_BUFFER, 6 * 4, UInts indices)]"
    by (simp add: vertex_state_set_up)
  have l: "length vertices = 4 * 8"
    by (simp add: vertices_def)
  have m: "window e \<noteq> NULL \<and> glad_loaded e \<longrightarrow>
      vertex_state_after (fst (main e)) = vertex_state_after (set_up_vertex_data e)"
    by (simp add: vertex_state_main)
  show ?thesis
    by (intro conjI) (rule p attrib_ends_set_up n u l fetch_vertices fetch_fifth_vertex m)+
qed

theorem vertex_layout_matches_attrib_pointers_witness:
  "pointers (vertex_state_after (fst (main env_ok))) =
     [\<lparr>attr_index = 0, attr_size = 3, attr_type = GL_FLOAT, attr_normalized = GL_FALSE,
       attr_stride = 32, attr_offset = 0, attr_buffer = 1\<rparr>,
      \<lparr>attr_index = 1, attr_size = 3, attr_type = GL_FLOAT, attr_normalized = GL_FALSE,
       attr_stride = 32, attr_offset = 12, attr_buffer = 1\<rparr>,
      \<lparr>attr_index = 2, attr_size = 2, attr_type = GL_FLOAT, attr_normalized = GL_FALSE,
       attr_stride = 32, attr_offset = 24, attr_buffer = 1\<rparr>]
   \<and> uploads (vertex_state_after (fst (main env_ok))) =
       [(1, GL_ARRAY_BUFFER, 128, Floats vertices),
        (2, GL_ELEMENT_ARRAY_BUFFER, 24, UInts indices)]
   \<and> enabled (vertex_state_after (fst (main env_ok))) = [0, 1, 2]"
proof -
  have h: "window env_ok \<noteq> NULL \<and> glad_loaded env_ok"
    by (simp add: env_ok_def NULL_def)
  show ?thesis
    using vertex_layout_matches_attrib_pointers [of env_ok] h
    by (simp add: env_ok_def)
qed

text \<open>
  Claim C5. Drawing 6 indices from offset 0 as \<open>GL_TRIANGLES\<close> assembles exactly the two
  triangles (0, 1, 3) and (1, 2, 3); every index is at most 3. The four vertices are the
  corners of the square from -0.5 to 0.5 on both axes, all at depth 0. A point of the plane
  is in the square exactly when it is in one of the two triangles (no gap, nothing
  outside), no point is strictly inside both, and the points the two triangles share are
  exactly those of the diagonal between vertices 1 and 3.
\<close>

theorem index_buffer_two_triangles_cover_quad:
  "draw_elements 6 0 indices = [(0, 1, 3), (1, 2, 3)]
   \<and> length indices = 6
   \<and> list_all (\<lambda>i. unat i \<le> 3) indices
   \<and> map position [0, 1, 2, 3] = [(0.5, 0.5), (0.5, - 0.5), (- 0.5, - 0.5), (- 0.5, 0.5)]
   \<and> map depth [0, 1, 2, 3] = [0, 0, 0, 0]
   \<and> in_quad p = (in_triangle (0, 1, 3) p \<or> in_triangle (1, 2, 3) p)
   \<and> \<not> (strictly_inside (0, 1, 3) p \<and> strictly_inside (1, 2, 3) p)
   \<and> (in_triangle (0, 1, 3) p \<and> in_triangle (1, 2, 3) p) = on_edge 1 3 p"
  using triangles_cover_quad [of p] triangles_interiors_disjoint [of p] triangles_share_diagonal [of p]
  by (simp add: drawn_triangles indices_in_range position_simps position_Suc_0) (simp add: indices_def depth_def vertices_def)

text \<open>
  Claim C6. One iteration of the render loop makes these calls in this order: the key
  query (followed by setting the close flag when the escape key is down), clear colour and
  clear, binding the texture, using the shader program (and setting its time uniform to
  the clock converted to \<open>float\<close>),
  binding the vertex array, one \<open>glDrawElements\<close>, the buffer swap and the event poll
  (during which resize callbacks run). The close flag after an input check or an iteration
  is set exactly when it was set before, the escape key is down, or a close request was
  polled. The loop is left within the given frames exactly when the flag is set at the
  start or some frame sets it, and then the flag is set. If the flag is clear at the
  start and the first frame that sets it is \<open>f'\<close>, the loop runs the frames up to and
  including \<open>f'\<close>, each after a check of the flag, and is left at the next check; the
  frames after \<open>f'\<close> are not run.
\<close>

theorem frame_loop_order_and_exit:
  "calls (frame e f w) = calls w
     @ [GlfwGetKey (window e) GLFW_KEY_ESCAPE]
     @ (if escape_key f = GLFW_PRESS then [GlfwSetWindowShouldClose (window e) True] else [])
     @ [GlClearColor float_0_2 float_0_3 float_0_3 1.0,
        GlClear GL_COLOR_BUFFER_BIT,
        GlBindTexture GL_TEXTURE_2D (texture e),
        ShaderUse,
        ShaderGetProgram,
        GlGetUniformLocation (program e) ''time'',
        GlfwGetTime,
        GlUniform1f (time_location f) (float_of_double e (clock f)),
        GlBindVertexArray (VAO e),
        GlDrawElements GL_TRIANGLES 6 GL_UNSIGNED_INT 0,
        GlfwSwapBuffers (window e),
        GlfwPollEvents]
     @ concat (map callback_calls (polled f))
   \<and> should_close (processInput win key w) = (should_close w \<or> key = GLFW_PRESS)
   \<and> should_close (frame e f w) =
       (should_close w \<or> escape_key f = GLFW_PRESS \<or> CloseRequested \<in> set (polled f))
   \<and> fst (render_loop e fs w) = (should_close w \<or> (\<exists>f \<in> set fs. close_requested_in f))
   \<and> should_close (snd (render_loop e fs w)) = fst (render_loop e fs w)
   \<and> (\<not> should_close w \<and> list_all (\<lambda>f. \<not> close_requested_in f) pre
        \<and> close_requested_in f' \<longrightarrow>
      render_loop e (pre @ f' # post) w =
        (True, emit (GlfwWindowShouldClose (window e))
           (fold (\<lambda>f w. frame e f (emit (GlfwWindowShouldClose (window e)) w))
              (pre @ [f']) w)))"
proof -
  have "should_close (processInput win key w) = (should_close w \<or> key = GLFW_PRESS)"
    by (simp add: processInput_def glfwSetWindowShouldClose_def Let_def)
  moreover have "calls (frame e f w) = calls w @ frame_calls e f"
    by (rule calls_frame)
  ultimately show ?thesis
    using render_loop_until [of w pre f' e post]
    by (simp add: should_close_frame left_render_loop should_close_render_loop)
       (simp add: frame_calls_def close_requested_in_def)
qed

theorem frame_loop_order_and_exit_witness:
  "render_loop env_ok [frame_idle, frame_resized, frame_escape, frame_idle] world_start =
     (True, emit (GlfwWindowShouldClose (window env_ok))
        (fold (\<lambda>f w. frame env_ok f (emit (GlfwWindowShouldClose (window env_ok)) w))
           [frame_idle, frame_resized, frame_escape] world_start))
   \<and> length (filter (\<lambda>c. c = GlDrawElements GL_TRIANGLES 6 GL_UNSIGNED_INT 0)
        (calls (snd (render_loop env_ok [frame_idle, frame_resized, frame_escape, frame_idle]
           world_start)))) = 3"
proof -
  have h: "\<not> should_close world_start
      \<and> list_all (\<lambda>f. \<not> close_requested_in f) [frame_idle, frame_resized]
      \<and> close_requested_in frame_escape"
    by (simp add: world_start_def close_requested_in_def frame_idle_def frame_resized_def
        frame_escape_def)
  have r: "render_loop env_ok ([frame_idle, frame_resized] @ frame_escape # [frame_idle])
      world_start =
     (True, emit (GlfwWindowShouldClose (window env_ok))
        (fold (\<lambda>f w. frame env_ok f (emit (GlfwWindowShouldClose (window env_ok)) w))
           ([frame_idle, frame_resized] @ [frame_escape]) world_start))"
    using frame_loop_order_and_exit
      [of env_ok frame_idle world_start 0 GLFW_RELEASE "[]" "[frame_idle, frame_resized]"
        frame_escape "[frame_idle]"] h
    by blast
  show ?thesis
    by (simp add: r [simplified]) (simp add: calls_frame frame_calls_def frame_idle_def
        frame_resized_def frame_escape_def world_start_def)
qed

text \<open>
  Claim C7. The screen size constants are 800 and 600, and every run creates its window
  exactly once, with those dimensions. The resize callback makes one call,
  \<open>glViewport(0, 0, width, height)\<close>, with the dimensions it was given, so the viewport
  in force afterwards is exactly that; the same holds after a poll whose last event is a
  resize.
\<close>

theorem resize_sets_viewport:
  "SCR_WIDTH = 800 \<and> SCR_HEIGHT = 600
   \<and> filter is_create_window (fst (main e)) =
       [GlfwCreateWindow 800 600 ''LearnOpenGL'' NULL NULL]
   \<and> calls (framebuffer_size_callback win wd ht w) = calls w @ [GlViewport 0 0 wd ht]
   \<and> viewport (calls (framebuffer_size_callback win wd ht w)) = Some (0, 0, wd, ht)
   \<and> viewport (calls (glfwPollEvents win (evs @ [FramebufferResized wd ht]) w)) =
       Some (0, 0, wd, ht)"
  by (simp add: create_window_main SCR_WIDTH_def SCR_HEIGHT_def framebuffer_size_callback_def
      viewport_last glfwPollEvents_def)

text \<open>
  Claim C8. No run ever calls \<open>glDeleteTextures\<close>. The only delete calls of a run are the
  three for the vertex array, the vertex buffer and the element buffer, made exactly when
  \<open>main\<close> returns 0: they follow the render loop and are followed only by
  \<open>glfwTerminate\<close>. The texture object was generated in that run and outlives it.
\<close>

theorem geometry_deleted_texture_kept:
  "(\<forall>n i. GlDeleteTextures n i \<notin> set (fst (main e)))
   \<and> filter is_delete (fst (main e)) =
       (if snd (main e) = Some 0
        then [GlDeleteVertexArrays 1 (VAO e), GlDeleteBuffers 1 (VBO e),
              GlDeleteBuffers 1 (EBO e)]
        else [])
   \<and> (snd (main e) = Some 0 \<longrightarrow>
        GlGenTextures 1 \<in> set (fst (main e))
        \<and> drop (length (fst (main e)) - 4) (fst (main e)) =
            [GlDeleteVertexArrays 1 (VAO e), GlDeleteBuffers 1 (VBO e),
             GlDeleteBuffers 1 (EBO e), GlfwTerminate])"
proof -
  have a: "GlDeleteTextures n i \<notin> set (fst (main e))" for n i
  proof
    assume "GlDeleteTextures n i \<in> set (fst (main e))"
    then have "GlDeleteTextures n i \<in> set (filter is_delete (fst (main e)))"
      by (simp add: is_delete_def)
    then show False
      by (simp add: delete_main split: if_splits)
  qed
  have b: "GlGenTextures 1 \<in> set (fst (main e))
    \<and> drop (length (fst (main e)) - 4) (fst (main e)) =
            [GlDeleteVertexArrays 1 (VAO e), GlDeleteBuffers 1 (VBO e),
             GlDeleteBuffers 1 (EBO e), GlfwTerminate]" if "snd (main e) = Some 0"
  proof -
    from that have w: "window e \<noteq> NULL" and g: "glad_loaded e"
      and c: "\<exists>f \<in> set (frames e). close_requested_in f"
      by (auto simp add: main_status split: if_splits)
    show ?thesis
      using c by (simp add: main_render [OF w g] de_allocate_def)
        (simp add: set_up_def load_and_create_texture_def)
  qed
  from a b show ?thesis by (simp add: delete_main)
qed

theorem geometry_deleted_texture_kept_witness:
  "snd (main env_ok) = Some 0
   \<and> filter is_delete (fst (main env_ok)) =
       [GlDeleteVertexArrays 1 1, GlDeleteBuffers 1 1, GlDeleteBuffers 1 2]
   \<and> GlGenTextures 1 \<in> set (fst (main env_ok))
   \<and> drop (length (fst (main env_ok)) - 4) (fst (main env_ok)) =
       [GlDeleteVertexArrays 1 1, GlDeleteBuffers 1 1, GlDeleteBuffers 1 2, GlfwTerminate]"
proof -
  have s: "snd (main env_ok) = Some 0"
    by (simp add: main_status env_ok_def NULL_def close_requested_in_def frame_escape_def)
  show ?thesis
    using geometry_deleted_texture_kept [of env_ok] s by (simp add: env_ok_def)
qed

text \<open>
  Claim C9. The texture coordinates of the four vertices are (1,1), (1,0), (0,0), (0,1),
  the same through attribute pointer 2; each lies in the unit square. The wrap mode is set
  once for each axis, to \<open>GL_REPEAT\<close>.
\<close>

theorem texture_coordinates_in_unit_square:
  "map tex_coord [0, 1, 2, 3] = [(1, 1), (1, 0), (0, 0), (0, 1)]
   \<and> list_all in_unit_square (map tex_coord [0, 1, 2, 3])
   \<and> map (fetch vertices 2 32 24) [0, 1, 2, 3] =
       [[Some 1, Some 1], [Some 1, Some 0], [Some 0, Some 0], [Some 0, Some 1]]
   \<and> tex_parameters GL_TEXTURE_WRAP_S (load_and_create_texture e) = [GL_REPEAT]
   \<and> tex_parameters GL_TEXTURE_WRAP_T (load_and_create_texture e) = [GL_REPEAT]"
  using fetch_tex_coord
  by (simp add: wrap_parameters) (simp add: tex_coord_def vertices_def in_unit_square_def)

text \<open>
  Claim C10. The two fatal paths clean up differently: when the window cannot be created
  \<open>glfwTerminate\<close> is called once, as the last call before \<open>main\<close> returns -1; when the
  driver functions cannot be resolved \<open>main\<close> returns -1 right after the diagnostic and
  \<open>glfwTerminate\<close> is never called.
\<close>

theorem failure_cleanup_asymmetric:
  "(window e = NULL \<longrightarrow>
      snd (main e) = Some (- 1)
      \<and> filter is_terminate (fst (main e)) = [GlfwTerminate]
      \<and> last (fst (main e)) = GlfwTerminate)
   \<and> (window e \<noteq> NULL \<and> \<not> glad_loaded e \<longrightarrow>
      snd (main e) = Some (- 1)
      \<and> filter is_terminate (fst (main e)) = []
      \<and> last (fst (main e)) = Print ''Failed to initialize GLAD'')"
  by (simp add: main_window_failure main_glad_failure startup_def glfw_initialize_def
      is_terminate_def)

theorem failure_cleanup_asymmetric_witness:
  "snd (main env_no_window) = Some (- 1)
   \<and> filter is_terminate (fst (main env_no_window)) = [GlfwTerminate]
   \<and> last (fst (main env_no_window)) = GlfwTerminate
   \<and> snd (main env_no_glad) = Some (- 1)
   \<and> filter is_terminate (fst (main env_no_glad)) = []
   \<and> last (fst (main env_no_glad)) = Print ''Failed to initialize GLAD''"
  using failure_cleanup_asymmetric [of env_no_window] failure_cleanup_asymmetric [of env_no_glad]
  by (simp add: env_no_window_def env_no_glad_def env_ok_def NULL_def)

end
